theory Spec2Isabelle
  imports Main "HOL-Library.FSet"
begin

section \<open>The notification bot of \<open>bot.py\<close>\<close>

text \<open>
  \<open>NotificationBot\<close> keeps a password and a set of authorized chat ids. The set is
  mirrored in the file \<open>auth_users.json\<close>, the password in the \<open>.env\<close> file. Everything
  outside the object (the two files, the log, the HTTP calls that were made) is collected
  in a record \<open>world\<close> that each method takes and returns.
\<close>

subsection \<open>Logging\<close>

datatype level = INFO | WARNING | ERROR

text \<open>One constructor per \<open>logger\<close> call of the methods modelled below.\<close>

datatype event =
    Load_failed               \<comment> \<open>\<open>logger.error\<close> in \<open>_load_authorized_users\<close>\<close>
  | Save_failed               \<comment> \<open>\<open>logger.error\<close> in \<open>_save_authorized_users\<close>\<close>
  | User_authorized int       \<comment> \<open>\<open>logger.info\<close> in \<open>verify_user\<close>\<close>
  | Login_failed int          \<comment> \<open>\<open>logger.warning\<close> in \<open>verify_user\<close>\<close>
  | Start_received int        \<comment> \<open>\<open>logger.info\<close> in \<open>start\<close>\<close>
  | Send_without_users        \<comment> \<open>\<open>logger.warning\<close> in \<open>send_message\<close>\<close>
  | Message_sent int          \<comment> \<open>\<open>logger.info\<close> in \<open>send_message\<close>\<close>
  | Send_rejected int string  \<comment> \<open>\<open>logger.error\<close> with \<open>response.text\<close>\<close>
  | Send_raised int           \<comment> \<open>\<open>logger.error\<close> in the \<open>except\<close> of \<open>send_message\<close>\<close>
  | Remove_failed             \<comment> \<open>\<open>logger.error\<close> in \<open>update_password\<close>\<close>
  | Password_updated          \<comment> \<open>\<open>logger.info\<close> in \<open>update_password\<close>\<close>

subsection \<open>Files and the network\<close>

text \<open>
  The file \<open>auth_users.json\<close> either holds a JSON array of integers, as \<open>json.dump\<close>
  writes it, or it is a file on which \<open>open\<close>, \<open>json.load\<close> or \<open>set\<close> raises.
\<close>

datatype file_content = Json_ids "int list" | Unreadable

text \<open>
  The arguments of one \<open>requests.post\<close> call, and what the call does: it returns a
  response with a status code and a body, or it raises.
\<close>

record request =
  url :: string
  json_chat_id :: int
  json_text :: string
  timeout :: nat

datatype outcome = Response int string | Raises

text \<open>The calls that touch one of the two files.\<close>

datatype fs_call =
    Open_read         \<comment> \<open>\<open>open(self._auth_file, "r")\<close>\<close>
  | Open_write        \<comment> \<open>\<open>open(self._auth_file, "w")\<close>\<close>
  | Remove            \<comment> \<open>\<open>os.remove(self._auth_file)\<close>\<close>
  | Set_key string    \<comment> \<open>\<open>set_key(self._env_path, "TELEGRAM_BOT_PASSWORD", value)\<close>\<close>

text \<open>
  \<open>auth_file\<close> is \<open>None\<close> when \<open>os.path.exists\<close> is false. The three flags say whether
  opening the file for writing, \<open>os.remove\<close> and \<open>set_key\<close> raise. \<open>fs_calls\<close> and \<open>posts\<close>
  list the file calls and the outbound HTTP calls in the order they were made.
\<close>

record world =
  auth_file :: "file_content option"
  auth_write_fails :: bool
  auth_remove_fails :: bool
  env_password :: "string option"
  env_write_fails :: bool
  fs_calls :: "fs_call list"
  posts :: "request list"
  log :: "(level \<times> event) list"

definition logger :: "level \<Rightarrow> event \<Rightarrow> world \<Rightarrow> world" where
  "logger l e w = w\<lparr>log := log w @ [(l, e)]\<rparr>"

definition fs_call :: "fs_call \<Rightarrow> world \<Rightarrow> world" where
  "fs_call c w = w\<lparr>fs_calls := fs_calls w @ [c]\<rparr>"

subsection \<open>The bot\<close>

record bot =
  token :: string
  password :: string
  admin_chat_id :: int
  authorized_users :: "int fset"

datatype error =
    ValueError_token       \<comment> \<open>\<open>ValueError\<close> of \<open>__init__\<close> for the token\<close>
  | ValueError_password    \<comment> \<open>\<open>ValueError\<close> of \<open>__init__\<close> for the password\<close>
  | Set_key_error          \<comment> \<open>whatever \<open>set_key\<close> raises\<close>

text \<open>
  Python iterates over a set in an order of its own. The model fixes the ascending
  order; the theorems below use of it only that it lists each member once.
\<close>

definition iter :: "int fset \<Rightarrow> int list" where
  "iter s = sorted_list_of_fset s"

definition load_authorized_users :: "world \<Rightarrow> int fset \<times> world" where
  "load_authorized_users w =
     (case auth_file w of
        None \<Rightarrow> ({||}, w)
      | Some (Json_ids xs) \<Rightarrow> (fset_of_list xs, fs_call Open_read w)
      | Some Unreadable \<Rightarrow> ({||}, logger ERROR Load_failed (fs_call Open_read w)))"

definition save_authorized_users :: "bot \<Rightarrow> world \<Rightarrow> world" where
  "save_authorized_users b w =
     (let w1 = fs_call Open_write w
      in if auth_write_fails w then logger ERROR Save_failed w1
         else w1\<lparr>auth_file := Some (Json_ids (iter (authorized_users b)))\<rparr>)"

text \<open>
  \<open>__init__\<close>. The \<open>isinstance\<close> checks hold by typing, so the integer check on
  \<open>admin_chat_id\<close> has no failing branch here.
\<close>

definition init :: "string \<Rightarrow> string \<Rightarrow> int \<Rightarrow> world \<Rightarrow> error + (bot \<times> world)" where
  "init tok pw admin w =
     (if tok = [] then Inl ValueError_token
      else if pw = [] then Inl ValueError_password
      else let (users, w') = load_authorized_users w
           in Inr (\<lparr>token = tok, password = pw, admin_chat_id = admin,
                     authorized_users = users\<rparr>, w'))"

subsection \<open>Inbound messages\<close>

text \<open>
  An update carries the chat id of the sender and the text of the message, which is
  \<open>None\<close> when it is not a string. The replies are the three texts \<open>verify_user\<close> sends
  and the prompt of \<open>start\<close>: \<open>Access_denied\<close>, \<open>Access_granted\<close> and \<open>Invalid_password\<close>
  stand for the arguments of the three \<open>reply_text\<close> calls, in the order of the source.
  A handler returns the reply it passes to \<open>reply_text\<close>, with the bot and the world.
\<close>

record message =
  chat_id :: int
  message_text :: "string option"

datatype reply = Access_denied | Access_granted | Invalid_password | Password_prompt

definition verify_user :: "bot \<Rightarrow> world \<Rightarrow> message \<Rightarrow> reply \<times> bot \<times> world" where
  "verify_user b w m =
     (if chat_id m \<noteq> admin_chat_id b then (Access_denied, b, w)
      else if message_text m = Some (password b) then
        (let b' = b\<lparr>authorized_users := finsert (chat_id m) (authorized_users b)\<rparr>;
             w' = save_authorized_users b' w
         in (Access_granted, b', logger INFO (User_authorized (chat_id m)) w'))
      else (Invalid_password, b, logger WARNING (Login_failed (chat_id m)) w))"

definition start :: "bot \<Rightarrow> world \<Rightarrow> message \<Rightarrow> reply \<times> bot \<times> world" where
  "start b w m = (Password_prompt, b, logger INFO (Start_received (chat_id m)) w)"

subsection \<open>Outbound messages\<close>

definition send_request :: "string \<Rightarrow> int \<Rightarrow> string \<Rightarrow> request" where
  "send_request tok c txt =
     \<lparr>url = ''https://api.telegram.org/bot'' @ tok @ ''/sendMessage'',
      json_chat_id = c, json_text = txt, timeout = 5\<rparr>"

text \<open>The body of the \<open>for\<close> loop of \<open>send_message\<close>, for one chat id.\<close>

definition send_one ::
  "(request \<Rightarrow> outcome) \<Rightarrow> string \<Rightarrow> string \<Rightarrow> int \<Rightarrow> bool \<times> world \<Rightarrow> bool \<times> world" where
  "send_one post tok txt c sw =
     (let success = fst sw;
          w = (snd sw)\<lparr>posts := posts (snd sw) @ [send_request tok c txt]\<rparr>
      in case post (send_request tok c txt) of
           Response code body \<Rightarrow>
             if code = 200 then (True, logger INFO (Message_sent c) w)
             else (success, logger ERROR (Send_rejected c body) w)
         | Raises \<Rightarrow> (success, logger ERROR (Send_raised c) w))"

fun send_loop ::
  "(request \<Rightarrow> outcome) \<Rightarrow> string \<Rightarrow> string \<Rightarrow> int list \<Rightarrow> bool \<times> world \<Rightarrow> bool \<times> world" where
  "send_loop post tok txt [] sw = sw"
| "send_loop post tok txt (c # cs) sw = send_loop post tok txt cs (send_one post tok txt c sw)"

definition send_message :: "(request \<Rightarrow> outcome) \<Rightarrow> bot \<Rightarrow> world \<Rightarrow> string \<Rightarrow> bool \<times> world" where
  "send_message post b w txt =
     (if authorized_users b = {||} then (False, logger WARNING Send_without_users w)
      else send_loop post (token b) txt (iter (authorized_users b)) (False, w))"

subsection \<open>Changing the password\<close>

text \<open>
  The two assignments come first, so they stay when \<open>set_key\<close> raises: the result is
  the exception or \<open>()\<close>, together with the bot and the world as the call leaves them.
\<close>

definition update_password :: "bot \<Rightarrow> world \<Rightarrow> string \<Rightarrow> (error + unit) \<times> bot \<times> world" where
  "update_password b w new_password =
     (let b' = b\<lparr>password := new_password, authorized_users := {||}\<rparr>;
          w1 = (case auth_file w of
                  None \<Rightarrow> w
                | Some f \<Rightarrow>
                    if auth_remove_fails w then logger ERROR Remove_failed (fs_call Remove w)
                    else (fs_call Remove w)\<lparr>auth_file := None\<rparr>);
          w2 = fs_call (Set_key new_password) w1
      in if env_write_fails w then (Inl Set_key_error, b', w2)
         else (Inr (), b', logger INFO Password_updated (w2\<lparr>env_password := Some new_password\<rparr>)))"

subsection \<open>Vocabulary of the properties\<close>

text \<open>An outbound call succeeds when it returns a response with status code 200.\<close>

definition status_ok :: "outcome \<Rightarrow> bool" where
  "status_ok r = (case r of Response code body \<Rightarrow> code = 200 | Raises \<Rightarrow> False)"

text \<open>The bot and the world a method leaves behind, for the methods that return a triple.\<close>

definition bot_of :: "'a \<times> bot \<times> world \<Rightarrow> bot" where
  "bot_of r = fst (snd r)"

definition world_of :: "'a \<times> bot \<times> world \<Rightarrow> world" where
  "world_of r = snd (snd r)"

subsection \<open>Sample inputs\<close>

definition sample_world :: world where
  "sample_world =
     \<lparr>auth_file = Some (Json_ids [7]), auth_write_fails = False, auth_remove_fails = False,
      env_password = Some ''hunter2'', env_write_fails = False,
      fs_calls = [], posts = [], log = []\<rparr>"

definition sample_bot :: bot where
  "sample_bot =
     \<lparr>token = ''T'', password = ''hunter2'', admin_chat_id = 7, authorized_users = {|7|}\<rparr>"

text \<open>Three recipients: the call for 1 is refused, the call for 2 succeeds, the call for 3 raises.\<close>

definition post_mixed :: "request \<Rightarrow> outcome" where
  "post_mixed r =
     (if json_chat_id r = 1 then Response 500 ''Internal Server Error''
      else if json_chat_id r = 2 then Response 200 ''ok''
      else Raises)"

definition post_down :: "request \<Rightarrow> outcome" where
  "post_down r = (if json_chat_id r = 1 then Response 403 ''Forbidden'' else Raises)"

section \<open>Properties\<close>

subsection \<open>Iteration over the set\<close>

lemma iter_set: "set (iter s) = fset s"
  by (simp add: iter_def)

lemma iter_distinct: "distinct (iter s)"
  by (simp add: iter_def sorted_list_of_fset.rep_eq)

lemma iter_empty: "iter {||} = []"
  by (simp add: iter_def sorted_list_of_fset.rep_eq)

lemma iter_roundtrip: "fset_of_list (iter s) = s"
  by (simp add: iter_def)

subsection \<open>The broadcast loop\<close>

lemma posts_logger: "posts (logger l e w) = posts w"
  by (simp add: logger_def)

lemma send_one_posts:
  "posts (snd (send_one post tok txt c sw)) = posts (snd sw) @ [send_request tok c txt]"
  by (simp add: send_one_def Let_def posts_logger split: outcome.split)

lemma send_one_success:
  "fst (send_one post tok txt c sw) = (fst sw \<or> status_ok (post (send_request tok c txt)))"
  by (simp add: send_one_def Let_def status_ok_def split: outcome.split)

lemma send_loop_posts:
  "posts (snd (send_loop post tok txt cs sw)) =
     posts (snd sw) @ map (\<lambda>c. send_request tok c txt) cs"
  by (induction cs arbitrary: sw) (simp_all add: send_one_posts)

lemma send_loop_success:
  "fst (send_loop post tok txt cs sw) =
     (fst sw \<or> (\<exists>c \<in> set cs. status_ok (post (send_request tok c txt))))"
  by (induction cs arbitrary: sw) (auto simp: send_one_success)

text \<open>
  C1. On a store that is not empty, \<open>send_message\<close> returns \<open>True\<close> exactly when the
  outbound call of at least one recipient succeeds with status 200. One success among
  failures is enough, and no success at all gives \<open>False\<close>.
\<close>

theorem send_message_true_iff_some_success:
  assumes "authorized_users b \<noteq> {||}"
  shows "fst (send_message post b w txt) =
           (\<exists>c. c |\<in>| authorized_users b \<and> status_ok (post (send_request (token b) c txt)))"
  using assms by (auto simp: send_message_def send_loop_success iter_set)

theorem send_message_true_iff_some_success_witness:
  "authorized_users (sample_bot\<lparr>authorized_users := {|1, 2, 3|}\<rparr>) \<noteq> {||}
   \<and> fst (send_message post_mixed (sample_bot\<lparr>authorized_users := {|1, 2, 3|}\<rparr>)
            sample_world ''hello'') = True
   \<and> fst (send_message post_down (sample_bot\<lparr>authorized_users := {|1, 2, 3|}\<rparr>)
            sample_world ''hello'') = False"
  using send_message_true_iff_some_success
          [of "sample_bot\<lparr>authorized_users := {|1, 2, 3|}\<rparr>" post_mixed sample_world "''hello''"]
        send_message_true_iff_some_success
          [of "sample_bot\<lparr>authorized_users := {|1, 2, 3|}\<rparr>" post_down sample_world "''hello''"]
  by (simp add: sample_bot_def post_mixed_def post_down_def send_request_def status_ok_def)

text \<open>
  C2. On an empty store \<open>send_message\<close> returns \<open>False\<close> at once: it logs one warning,
  makes no outbound call, and returns a value rather than raising.
\<close>

theorem send_message_empty_store:
  assumes "authorized_users b = {||}"
  shows "send_message post b w txt = (False, logger WARNING Send_without_users w)
         \<and> posts (snd (send_message post b w txt)) = posts w"
  using assms by (simp add: send_message_def posts_logger)

theorem send_message_empty_store_witness:
  "authorized_users (sample_bot\<lparr>authorized_users := {||}\<rparr>) = {||}
   \<and> fst (send_message post_mixed (sample_bot\<lparr>authorized_users := {||}\<rparr>) sample_world ''hello'')
       = False
   \<and> posts (snd (send_message post_mixed (sample_bot\<lparr>authorized_users := {||}\<rparr>)
                   sample_world ''hello'')) = []"
  using send_message_empty_store
          [of "sample_bot\<lparr>authorized_users := {||}\<rparr>" post_mixed sample_world "''hello''"]
  by (simp add: sample_bot_def sample_world_def logger_def)

text \<open>
  C3. Whatever the outbound calls do (return 200, return another status, raise),
  \<open>send_message\<close> makes one call for each recipient of the store, in iteration order,
  and returns a value: a failure for one recipient stops neither the loop nor the caller.
\<close>

theorem send_message_calls_every_recipient:
  "posts (snd (send_message post b w txt)) =
     posts w @ map (\<lambda>c. send_request (token b) c txt) (iter (authorized_users b))
   \<and> set (iter (authorized_users b)) = fset (authorized_users b)
   \<and> distinct (iter (authorized_users b))"
  by (simp add: send_message_def send_loop_posts posts_logger iter_empty iter_set iter_distinct)

theorem send_message_calls_every_recipient_witness:
  "map json_chat_id
     (posts (snd (send_message post_mixed (sample_bot\<lparr>authorized_users := {|1, 2, 3|}\<rparr>)
                    sample_world ''hello''))) = [1, 2, 3]"
  using send_message_calls_every_recipient
          [of post_mixed "sample_bot\<lparr>authorized_users := {|1, 2, 3|}\<rparr>" sample_world "''hello''"]
  by (simp add: sample_bot_def sample_world_def send_request_def iter_def
        sorted_list_of_fset.rep_eq)


subsection \<open>Authorization and password rotation\<close>






lemma verify_user_right_text:
  "chat_id m = admin_chat_id b \<Longrightarrow> message_text m = Some (password b) \<Longrightarrow>
   fst (verify_user b w m) = Access_granted \<and>
   bot_of (verify_user b w m) = b\<lparr>authorized_users := finsert (admin_chat_id b) (authorized_users b)\<rparr>"
  by (simp add: verify_user_def Let_def bot_of_def)




text \<open>
  C5. A message whose chat id is not the admin's is answered "access denied", whatever
  its text, the current password included: the bot (store and password) and the world
  (file, log) stay as they were. The check of the chat id comes before the comparison
  with the password.
\<close>

theorem verify_user_non_admin:
  assumes "chat_id m \<noteq> admin_chat_id b"
  shows "verify_user b w m = (Access_denied, b, w)"
  using assms by (simp add: verify_user_def)

theorem verify_user_non_admin_witness:
  "chat_id \<lparr>chat_id = 8, message_text = Some ''hunter2''\<rparr> \<noteq> admin_chat_id sample_bot
   \<and> message_text \<lparr>chat_id = 8, message_text = Some ''hunter2''\<rparr> = Some (password sample_bot)
   \<and> verify_user sample_bot sample_world \<lparr>chat_id = 8, message_text = Some ''hunter2''\<rparr>
       = (Access_denied, sample_bot, sample_world)"
  using verify_user_non_admin
          [of "\<lparr>chat_id = 8, message_text = Some ''hunter2''\<rparr>" sample_bot sample_world]
  by (simp add: sample_bot_def)


lemma fs_flags_logger:
  "auth_write_fails (logger l e w) = auth_write_fails w"
  "auth_remove_fails (logger l e w) = auth_remove_fails w"
  "env_write_fails (logger l e w) = env_write_fails w"
  "fs_calls (logger l e w) = fs_calls w"
  "env_password (logger l e w) = env_password w"
  by (simp_all add: logger_def)

lemma log_logger: "log (logger l e w) = log w @ [(l, e)]"
  by (simp add: logger_def)

lemma log_fs_call: "log (fs_call c w) = log w"
  by (simp add: fs_call_def)

lemma fs_calls_fs_call: "fs_calls (fs_call c w) = fs_calls w @ [c]"
  by (simp add: fs_call_def)

lemma save_authorized_users_file:
  "\<not> auth_write_fails w \<Longrightarrow>
   auth_file (save_authorized_users b w) = Some (Json_ids (iter (authorized_users b)))"
  by (simp add: save_authorized_users_def Let_def)

lemma load_authorized_users_ids:
  "auth_file w = Some (Json_ids xs) \<Longrightarrow> fst (load_authorized_users w) = fset_of_list xs"
  by (simp add: load_authorized_users_def)







lemma load_after_save:
  assumes "\<not> auth_write_fails w"
  shows "fst (load_authorized_users (save_authorized_users c w)) = authorized_users c"
proof -
  have "auth_file (save_authorized_users c w) = Some (Json_ids (iter (authorized_users c)))"
    using assms by (rule save_authorized_users_file)
  then have "fst (load_authorized_users (save_authorized_users c w))
             = fset_of_list (iter (authorized_users c))"
    by (rule load_authorized_users_ids)
  then show ?thesis by (simp only: iter_roundtrip)
qed

lemma init_users:
  assumes "tok \<noteq> []" and "pw \<noteq> []"
  shows "init tok pw admin w =
           Inr (\<lparr>token = tok, password = pw, admin_chat_id = admin,
                 authorized_users = fst (load_authorized_users w)\<rparr>,
                snd (load_authorized_users w))"
  using assms by (simp add: init_def split_beta)

text \<open>
  C7. When the set has been written to the file, loading it gives the same set back.
  So after \<open>i\<close> is added and the set saved, \<open>i\<close> is a member of the set that
  \<open>_load_authorized_users\<close> returns, and a bot constructed anew on that file starts
  with the store that was saved.
\<close>

theorem save_load_roundtrip:
  assumes "\<not> auth_write_fails w"
  shows "fst (load_authorized_users (save_authorized_users b w)) = authorized_users b
         \<and> i |\<in>| fst (load_authorized_users
                       (save_authorized_users
                          (b\<lparr>authorized_users := finsert i (authorized_users b)\<rparr>) w))
         \<and> (tok \<noteq> [] \<and> pw \<noteq> [] \<longrightarrow>
              (case init tok pw admin
                      (save_authorized_users
                         (b\<lparr>authorized_users := finsert i (authorized_users b)\<rparr>) w) of
                 Inl e \<Rightarrow> False
               | Inr (b', w') \<Rightarrow> authorized_users b' = finsert i (authorized_users b)))"
proof -
  let ?c = "b\<lparr>authorized_users := finsert i (authorized_users b)\<rparr>"
  have 1: "fst (load_authorized_users (save_authorized_users b w)) = authorized_users b"
    using assms by (rule load_after_save)
  have 2: "fst (load_authorized_users (save_authorized_users ?c w)) = finsert i (authorized_users b)"
    using load_after_save [OF assms, of ?c] by simp
  have 3: "case init tok pw admin (save_authorized_users ?c w) of
             Inl e \<Rightarrow> False
           | Inr (b', w') \<Rightarrow> authorized_users b' = finsert i (authorized_users b)"
    if "tok \<noteq> []" "pw \<noteq> []"
    by (simp add: init_users [OF that] 2)
  from 1 2 3 show ?thesis by simp
qed

theorem save_load_roundtrip_witness:
  "\<not> auth_write_fails sample_world
   \<and> fst (load_authorized_users
            (save_authorized_users (sample_bot\<lparr>authorized_users := finsert 42 {|7|}\<rparr>)
               sample_world)) = {|7, 42|}
   \<and> 42 |\<in>| fst (load_authorized_users
            (save_authorized_users (sample_bot\<lparr>authorized_users := finsert 42 {|7|}\<rparr>)
               sample_world))"
  using save_load_roundtrip [of sample_world "sample_bot\<lparr>authorized_users := finsert 42 {|7|}\<rparr>" 42]
        save_load_roundtrip [of sample_world sample_bot 42]
  by (auto simp add: sample_bot_def sample_world_def)


lemma count_list_distinct_member:
  "x \<in> set xs \<Longrightarrow> distinct xs \<Longrightarrow> count_list xs x = 1"
  by (induction xs) auto

text \<open>
  C8. When the admin sends the current password twice in a row, both messages are
  answered "access granted", the bot after the second message is the bot after the
  first, and the admin occurs exactly once in the enumeration of the store.
\<close>

theorem verify_user_idempotent:
  assumes "chat_id m = admin_chat_id b" and "message_text m = Some (password b)"
  shows "fst (verify_user b w m) = Access_granted
         \<and> fst (verify_user (bot_of (verify_user b w m)) (world_of (verify_user b w m)) m)
             = Access_granted
         \<and> bot_of (verify_user (bot_of (verify_user b w m)) (world_of (verify_user b w m)) m)
             = bot_of (verify_user b w m)
         \<and> count_list (iter (authorized_users
              (bot_of (verify_user (bot_of (verify_user b w m)) (world_of (verify_user b w m)) m))))
              (admin_chat_id b) = 1"
proof -
  let ?b1 = "bot_of (verify_user b w m)"
  let ?w1 = "world_of (verify_user b w m)"
  have first: "fst (verify_user b w m) = Access_granted"
    and b1: "?b1 = b\<lparr>authorized_users := finsert (admin_chat_id b) (authorized_users b)\<rparr>"
    using assms verify_user_right_text [of m b w] by simp_all
  have "chat_id m = admin_chat_id ?b1" and "message_text m = Some (password ?b1)"
    using assms by (simp_all add: b1)
  then have second: "fst (verify_user ?b1 ?w1 m) = Access_granted"
    and b2: "bot_of (verify_user ?b1 ?w1 m)
             = ?b1\<lparr>authorized_users := finsert (admin_chat_id ?b1) (authorized_users ?b1)\<rparr>"
    using verify_user_right_text [of m ?b1 ?w1] by simp_all
  have same: "bot_of (verify_user ?b1 ?w1 m) = ?b1"
    by (simp add: b2) (simp add: b1)
  have "admin_chat_id b \<in> set (iter (authorized_users ?b1))"
    by (simp add: iter_set b1)
  then have once: "count_list (iter (authorized_users ?b1)) (admin_chat_id b) = 1"
    using iter_distinct [of "authorized_users ?b1"] by (rule count_list_distinct_member)
  from first second same once show ?thesis by simp
qed

theorem verify_user_idempotent_witness:
  "chat_id \<lparr>chat_id = 7, message_text = Some ''hunter2''\<rparr>
     = admin_chat_id (sample_bot\<lparr>authorized_users := {||}\<rparr>)
   \<and> authorized_users (bot_of (verify_user (sample_bot\<lparr>authorized_users := {||}\<rparr>) sample_world
        \<lparr>chat_id = 7, message_text = Some ''hunter2''\<rparr>)) = {|7|}
   \<and> bot_of (verify_user
        (bot_of (verify_user (sample_bot\<lparr>authorized_users := {||}\<rparr>) sample_world
           \<lparr>chat_id = 7, message_text = Some ''hunter2''\<rparr>))
        (world_of (verify_user (sample_bot\<lparr>authorized_users := {||}\<rparr>) sample_world
           \<lparr>chat_id = 7, message_text = Some ''hunter2''\<rparr>))
        \<lparr>chat_id = 7, message_text = Some ''hunter2''\<rparr>)
      = sample_bot"
  using verify_user_idempotent
          [of "\<lparr>chat_id = 7, message_text = Some ''hunter2''\<rparr>"
              "sample_bot\<lparr>authorized_users := {||}\<rparr>" sample_world]
  by (simp add: sample_bot_def) (simp add: verify_user_def bot_of_def Let_def)

text \<open>
  The file exists and \<open>os.remove\<close> raises: \<open>update_password\<close> logs the error, writes the
  new password and returns normally, and the file still lists the old recipient.
\<close>

theorem update_password_remove_failure_counterexample:
  "auth_file (sample_world\<lparr>auth_remove_fails := True\<rparr>) = Some (Json_ids [7])
   \<and> auth_remove_fails (sample_world\<lparr>auth_remove_fails := True\<rparr>)
   \<and> fst (update_password sample_bot (sample_world\<lparr>auth_remove_fails := True\<rparr>) ''s3cret'')
       = Inr ()
   \<and> auth_file (world_of (update_password sample_bot
                   (sample_world\<lparr>auth_remove_fails := True\<rparr>) ''s3cret''))
       = Some (Json_ids [7])"
  by (simp add: update_password_def sample_world_def world_of_def Let_def logger_def fs_call_def)

text \<open>
  C9, as the code has it. \<open>update_password\<close> raises exactly when \<open>set_key\<close> raises, and
  it logs nothing about that exception. A failure of \<open>os.remove\<close> is caught and logged
  as an error, and the call goes on. Each of the two file calls is made at most once:
  \<open>os.remove\<close> once when the file exists, \<open>set_key\<close> once.
\<close>

theorem update_password_failure_report:
  "(fst (update_password b w new) = Inl Set_key_error) = env_write_fails w
   \<and> (fst (update_password b w new) = Inr ()) = (\<not> env_write_fails w)
   \<and> log (world_of (update_password b w new)) =
       log w
       @ (if auth_file w \<noteq> None \<and> auth_remove_fails w then [(ERROR, Remove_failed)] else [])
       @ (if env_write_fails w then [] else [(INFO, Password_updated)])
   \<and> fs_calls (world_of (update_password b w new)) =
       fs_calls w @ (if auth_file w = None then [] else [Remove]) @ [Set_key new]"
  by (simp add: update_password_def world_of_def Let_def log_logger log_fs_call
        fs_flags_logger fs_calls_fs_call split: option.split)

theorem update_password_failure_report_witness:
  "env_write_fails (sample_world\<lparr>env_write_fails := True\<rparr>)
   \<and> fst (update_password sample_bot (sample_world\<lparr>env_write_fails := True\<rparr>) ''s3cret'')
       = Inl Set_key_error
   \<and> log (world_of (update_password sample_bot (sample_world\<lparr>env_write_fails := True\<rparr>)
                 ''s3cret'')) = []
   \<and> log (world_of (update_password sample_bot (sample_world\<lparr>auth_remove_fails := True\<rparr>)
                 ''s3cret'')) = [(ERROR, Remove_failed), (INFO, Password_updated)]
   \<and> fs_calls (world_of (update_password sample_bot (sample_world\<lparr>auth_remove_fails := True\<rparr>)
                 ''s3cret'')) = [Remove, Set_key ''s3cret'']"
  using update_password_failure_report
          [of sample_bot "sample_world\<lparr>env_write_fails := True\<rparr>" "''s3cret''"]
        update_password_failure_report
          [of sample_bot "sample_world\<lparr>auth_remove_fails := True\<rparr>" "''s3cret''"]
  by (simp add: sample_world_def)



end
